theory Spec2Isabelle
  imports Main
begin

section \<open>The ONNX export configuration (\<open>transformers/onnx/config.py\<close>)\<close>

subsection \<open>Python values and objects\<close>

text \<open>
  The values that configuration attributes and override dictionaries hold (\<open>Any\<close> in the
  source's type hints), as far as this module builds or inspects them.
\<close>

datatype pyval = PyNone | PyBool bool | PyInt int | PyStr string

datatype py_error = AttributeError

text \<open>
  A \<open>PretrainedConfig\<close> is an object owned by the caller: a bag of attributes. The export
  configuration keeps a reference to it (\<open>self._config = config\<close>), so configuration
  objects live in a heap, addressed by reference, and every operation of the module takes
  the heap and returns it.
\<close>

type_synonym PretrainedConfig = "string \<rightharpoonup> pyval"

type_synonym ref = nat

type_synonym heap = "ref \<Rightarrow> PretrainedConfig"

text \<open>
  Python's \<open>getattr\<close> raises \<open>AttributeError\<close> for a missing attribute; \<open>hasattr\<close> calls
  it and reports whether it raised. An attribute whose value is \<open>None\<close> is present.
\<close>

definition getattr :: "heap \<Rightarrow> ref \<Rightarrow> string \<Rightarrow> py_error + pyval" where
  "getattr h r name = (case h r name of None \<Rightarrow> Inl AttributeError | Some v \<Rightarrow> Inr v)"

definition hasattr :: "heap \<Rightarrow> ref \<Rightarrow> string \<Rightarrow> bool" where
  "hasattr h r name = (case getattr h r name of Inl _ \<Rightarrow> False | Inr _ \<Rightarrow> True)"

text \<open>
  \<open>sep.join(xs)\<close>, and the repetition operator \<open>xs * n\<close> of strings and lists, which gives
  the empty sequence for \<open>n \<le> 0\<close>.
\<close>

fun str_join :: "string \<Rightarrow> string list \<Rightarrow> string" where
  "str_join sep [] = []"
| "str_join sep [x] = x"
| "str_join sep (x # y # ys) = x @ sep @ str_join sep (y # ys)"

definition py_mul :: "'a list \<Rightarrow> int \<Rightarrow> 'a list" where
  "py_mul xs n = concat (replicate (nat n) xs)"

subsection \<open>The helpers imported from \<open>.utils\<close>\<close>

text \<open>
  Modelled from the spec: \<open>ParameterFormat\<close> is imported from \<open>.utils\<close>, which is not among
  the sources. The spec describes it as an enumerated numeric storage format, each with a
  fixed byte width; the one format this module names is the 32-bit float, 4 bytes wide.
\<close>

datatype ParameterFormat = Float

text \<open>
  Modelled from the spec: the byte width of a \<open>ParameterFormat\<close> (its \<open>size\<close>), absent with
  \<open>.utils\<close>; the spec gives Float32 the width 4.
\<close>

fun byte_width :: "ParameterFormat \<Rightarrow> int" where
  "byte_width Float = 4"

text \<open>
  Modelled from the spec: \<open>compute_serialized_parameters_size\<close> (the spec's SizeEstimator)
  is imported from \<open>.utils\<close>, which is not among the sources. The spec:
  \<open>bytes = num_parameters \<times> byte_width(format)\<close>, no clamping.
\<close>

definition compute_serialized_parameters_size :: "int \<Rightarrow> ParameterFormat \<Rightarrow> int" where
  "compute_serialized_parameters_size num_parameters dtype = num_parameters * byte_width dtype"

text \<open>
  Modelled from the spec: \<open>compute_effective_axis_dimension\<close> (the spec's
  AxisDimensionResolver) is imported from \<open>.utils\<close>, which is not among the sources. The
  spec: a non-positive requested dimension takes the fallback fixed dimension as the base,
  any other is the base itself; the reserved-token count is subtracted from the base.
  Nothing guards the result against being negative.
\<close>

definition compute_effective_axis_dimension :: "int \<Rightarrow> int \<Rightarrow> int \<Rightarrow> int" where
  "compute_effective_axis_dimension dimension fixed_dimension num_token_to_add =
     (let base = (if dimension \<le> 0 then fixed_dimension else dimension)
      in base - num_token_to_add)"

subsection \<open>Module constants\<close>

definition DEFAULT_ONNX_OPSET :: int where
  "DEFAULT_ONNX_OPSET = 11"

definition EXTERNAL_DATA_FORMAT_SIZE_LIMIT :: int where
  "EXTERNAL_DATA_FORMAT_SIZE_LIMIT = 2 * 1024 * 1024 * 1024"

text \<open>The dictionary literal, its items in the order they are written.\<close>

definition DEFAULT_BERT_OPTIMIZER_FEATURES :: "(string \<times> bool) list" where
  "DEFAULT_BERT_OPTIMIZER_FEATURES =
     [(''enable_gelu'', True),
      (''enable_layer_norm'', True),
      (''enable_attention'', True),
      (''enable_skip_layer_norm'', True),
      (''enable_embed_layer_norm'', True),
      (''enable_bias_skip_layer_norm'', True),
      (''enable_bias_gelu'', True),
      (''enable_gelu_approximation'', False)]"

subsection \<open>The tokenizer collaborator\<close>

text \<open>
  \<open>PreTrainedTokenizer\<close> comes from the \<open>transformers\<close> package. This module uses three of
  its members: the \<open>unk_token\<close> string, \<open>num_special_tokens_to_add(is_pair)\<close>, and the call
  \<open>tokenizer(batch, return_tensors=framework)\<close>, which returns a \<open>BatchEncoding\<close> (a mapping
  from tensor names to tensors) or raises. The tokenizer is handed the batch and the
  framework hint only, never the model configuration.
\<close>

datatype 't BatchEncoding = BatchEncoding (data: "string \<rightharpoonup> 't")

record ('fw, 't, 'e) PreTrainedTokenizer =
  unk_token :: string
  num_special_tokens_to_add :: "bool \<Rightarrow> int"
  call :: "string list \<Rightarrow> 'fw option \<Rightarrow> 'e + 't BatchEncoding"

text \<open>\<open>dict(m)\<close> of a mapping: a plain dictionary with the same items.\<close>

definition dict :: "'t BatchEncoding \<Rightarrow> (string \<rightharpoonup> 't)" where
  "dict be = data be"

subsection \<open>\<open>OnnxConfig\<close>\<close>

text \<open>The field \<open>config\<close> is the source's \<open>self._config\<close>.\<close>

record OnnxConfig =
  config :: ref

definition OnnxConfig_init :: "ref \<Rightarrow> OnnxConfig" where
  "OnnxConfig_init cfg = \<lparr>config = cfg\<rparr>"

definition OnnxConfig_default :: "ref \<Rightarrow> OnnxConfig" where
  "OnnxConfig_default cfg = OnnxConfig_init cfg"

definition values_override ::
  "'a OnnxConfig_scheme \<Rightarrow> heap \<Rightarrow> (string \<rightharpoonup> pyval) option \<times> heap" where
  "values_override self h =
     (if hasattr h (config self) ''use_cache''
      then (Some [''use_cache'' \<mapsto> PyBool False], h)
      else (None, h))"

definition default_onnx_opset :: "'a OnnxConfig_scheme \<Rightarrow> heap \<Rightarrow> int \<times> heap" where
  "default_onnx_opset self h = (DEFAULT_ONNX_OPSET, h)"

definition use_external_data_format :: "int \<Rightarrow> heap \<Rightarrow> bool \<times> heap" where
  "use_external_data_format num_parameters h =
     (compute_serialized_parameters_size num_parameters Float
        \<ge> EXTERNAL_DATA_FORMAT_SIZE_LIMIT, h)"

text \<open>
  The first half of \<open>generate_dummy_inputs\<close>: the two resolved dimensions and the list
  \<open>dummy_input\<close> built from them.
\<close>

definition dummy_input ::
  "('fw, 't, 'e, 'b) PreTrainedTokenizer_scheme \<Rightarrow> int \<Rightarrow> int \<Rightarrow> bool \<Rightarrow> string list" where
  "dummy_input tokenizer batch_size seq_length is_pair =
     (let batch_size = compute_effective_axis_dimension batch_size 2 0;
          token_to_add = num_special_tokens_to_add tokenizer is_pair;
          seq_length = compute_effective_axis_dimension seq_length 8 token_to_add
      in py_mul [py_mul (str_join '' '' [unk_token tokenizer]) seq_length] batch_size)"

text \<open>
  The second half: the tokenizer is called on the list; what it raises propagates, what it
  returns is converted by \<open>dict\<close>.
\<close>

definition generate_dummy_inputs ::
  "'a OnnxConfig_scheme \<Rightarrow> ('fw, 't, 'e, 'b) PreTrainedTokenizer_scheme \<Rightarrow> int \<Rightarrow> int \<Rightarrow> bool
     \<Rightarrow> 'fw option \<Rightarrow> heap \<Rightarrow> ('e + (string \<rightharpoonup> 't)) \<times> heap" where
  "generate_dummy_inputs self tokenizer batch_size seq_length is_pair framework h =
     (case call tokenizer (dummy_input tokenizer batch_size seq_length is_pair) framework of
        Inl e \<Rightarrow> (Inl e, h)
      | Inr be \<Rightarrow> (Inr (dict be), h))"

subsection \<open>\<open>OnnxConfigWithPast\<close>\<close>

record OnnxConfigWithPast = OnnxConfig +
  use_past :: bool

definition OnnxConfigWithPast_init :: "ref \<Rightarrow> bool \<Rightarrow> OnnxConfigWithPast" where
  "OnnxConfigWithPast_init cfg up = \<lparr>config = cfg, use_past = up\<rparr>"

definition with_past :: "ref \<Rightarrow> OnnxConfigWithPast" where
  "with_past cfg = OnnxConfigWithPast_init cfg True"

definition config_values_override ::
  "'a OnnxConfigWithPast_scheme \<Rightarrow> heap \<Rightarrow> (string \<rightharpoonup> pyval) option \<times> heap" where
  "config_values_override self h =
     (if hasattr h (config self) ''use_cache''
      then (Some [''use_cache'' \<mapsto> PyBool (use_past self)], h)
      else (None, h))"

subsection \<open>A sample tokenizer\<close>

text \<open>
  A tokenizer that adds no special tokens and whose one output tensor, \<open>input_ids\<close>, holds
  the length of each text of the batch.
\<close>

definition tok0 :: "(unit, nat list, unit) PreTrainedTokenizer" where
  "tok0 = \<lparr>unk_token = ''[UNK]'', num_special_tokens_to_add = (\<lambda>p. 0),
           call = (\<lambda>xs fw. Inr (BatchEncoding [''input_ids'' \<mapsto> map length xs]))\<rparr>"

section \<open>Properties\<close>

lemma hasattr_dom: "hasattr h r name \<longleftrightarrow> name \<in> dom (h r)"
  by (auto simp: hasattr_def getattr_def split: option.splits)

text \<open>
  C3: the axis-dimension resolver returns \<open>f - r\<close> for a non-positive requested dimension
  \<open>d\<close> and \<open>d - r\<close> for a positive one; at \<open>(-1, 2, 0)\<close> it gives 2, at \<open>(-1, 8, 2)\<close> it gives
  6, at \<open>(5, 8, 2)\<close> it gives 3.
\<close>

theorem compute_effective_axis_dimension_cases:
  "compute_effective_axis_dimension d f r = (if d \<le> 0 then f - r else d - r)
   \<and> compute_effective_axis_dimension (-1) 2 0 = 2
   \<and> compute_effective_axis_dimension (-1) 8 2 = 6
   \<and> compute_effective_axis_dimension 5 8 2 = 3"
  by (simp add: compute_effective_axis_dimension_def)

text \<open>
  C2: \<open>use_external_data_format\<close> answers true exactly when the parameter count times the
  byte width of Float32, which is 4, reaches 2 GiB (\<open>2 ^ 31\<close> bytes), for every integer
  count; it is true at 536870912 and false at 536870911.
\<close>

theorem use_external_data_format_iff:
  "fst (use_external_data_format n h) = (n * byte_width Float \<ge> 2 ^ 31)
   \<and> byte_width Float = 4
   \<and> EXTERNAL_DATA_FORMAT_SIZE_LIMIT = 2 ^ 31
   \<and> fst (use_external_data_format 536870912 h) = True
   \<and> fst (use_external_data_format 536870911 h) = False"
  by (simp add: use_external_data_format_def compute_serialized_parameters_size_def
        EXTERNAL_DATA_FORMAT_SIZE_LIMIT_def)

text \<open>
  C4: \<open>values_override\<close> returns the one-entry dictionary \<open>{"use_cache": False}\<close> when the
  configuration object has the attribute \<open>use_cache\<close>, and \<open>None\<close> when it has not. The
  absent attribute is no error: the result is \<open>None\<close> exactly where reading the attribute
  would raise \<open>AttributeError\<close>.
\<close>

theorem values_override_probe:
  "fst (values_override self h) =
     (if ''use_cache'' \<in> dom (h (config self))
      then Some [''use_cache'' \<mapsto> PyBool False] else None)
   \<and> (fst (values_override self h) = None)
       = (getattr h (config self) ''use_cache'' = Inl AttributeError)"
  by (simp add: values_override_def hasattr_dom getattr_def dom_def split: option.splits)

text \<open>
  C5: the instance that \<open>with_past\<close> builds has \<open>use_past = True\<close> and wraps the given
  configuration; its \<open>config_values_override\<close> is \<open>{"use_cache": True}\<close> when the
  configuration has the attribute \<open>use_cache\<close>. For any instance,
  \<open>config_values_override\<close> is \<open>{"use_cache": use_past}\<close> when the attribute is there and
  \<open>None\<close> when it is not.
\<close>

theorem config_values_override_use_past:
  "use_past (with_past cfg) = True
   \<and> config (with_past cfg) = cfg
   \<and> fst (config_values_override (with_past cfg) h) =
       (if ''use_cache'' \<in> dom (h cfg) then Some [''use_cache'' \<mapsto> PyBool True] else None)
   \<and> fst (config_values_override self h) =
       (if ''use_cache'' \<in> dom (h (config self))
        then Some [''use_cache'' \<mapsto> PyBool (use_past self)] else None)"
  by (simp add: with_past_def OnnxConfigWithPast_init_def config_values_override_def hasattr_dom)

text \<open>
  C7: on an \<open>OnnxConfigWithPast\<close> instance, \<open>values_override\<close> is the inherited one: for
  both values of \<open>use_past\<close> it is \<open>{"use_cache": False}\<close> when the configuration has the
  attribute \<open>use_cache\<close>, and changing \<open>use_past\<close> does not change it.
\<close>

theorem values_override_with_past:
  "fst (values_override (OnnxConfigWithPast_init cfg up) h) =
     (if ''use_cache'' \<in> dom (h cfg) then Some [''use_cache'' \<mapsto> PyBool False] else None)
   \<and> fst (values_override (self\<lparr>use_past := up\<rparr>) h) = fst (values_override self h)"
  by (simp add: OnnxConfigWithPast_init_def values_override_def hasattr_dom)

text \<open>
  C8: for every model configuration, \<open>default_onnx_opset\<close> of the instance that the
  \<open>default\<close> factory builds is 11.
\<close>

theorem default_onnx_opset_11:
  "fst (default_onnx_opset (OnnxConfig_default cfg) h) = 11"
  by (simp add: default_onnx_opset_def DEFAULT_ONNX_OPSET_def)

text \<open>
  C9: each of \<open>values_override\<close>, \<open>config_values_override\<close>, \<open>default_onnx_opset\<close>,
  \<open>use_external_data_format\<close> and \<open>generate_dummy_inputs\<close> returns the heap of
  configuration objects as it received it: the overrides are results, and no configuration
  object is written.
\<close>

theorem operations_leave_heap:
  "snd (values_override self h) = h
   \<and> snd (config_values_override selfp h) = h
   \<and> snd (default_onnx_opset self h) = h
   \<and> snd (use_external_data_format n h) = h
   \<and> snd (generate_dummy_inputs self tok b s p fw h) = h"
  by (simp add: values_override_def config_values_override_def default_onnx_opset_def
        use_external_data_format_def generate_dummy_inputs_def split: sum.splits)

text \<open>
  C10: \<open>DEFAULT_BERT_OPTIMIZER_FEATURES\<close> has exactly eight entries, with eight different
  keys (GELU, layer-norm, attention, skip+layer-norm, embedding layer-norm,
  bias+skip+layer-norm, bias+GELU, GELU approximation); the only entry whose value is false
  is the GELU approximation, and the seven others are true.
\<close>

theorem DEFAULT_BERT_OPTIMIZER_FEATURES_vocabulary:
  "map fst DEFAULT_BERT_OPTIMIZER_FEATURES =
     [''enable_gelu'', ''enable_layer_norm'', ''enable_attention'', ''enable_skip_layer_norm'',
      ''enable_embed_layer_norm'', ''enable_bias_skip_layer_norm'', ''enable_bias_gelu'',
      ''enable_gelu_approximation'']
   \<and> length DEFAULT_BERT_OPTIMIZER_FEATURES = 8
   \<and> distinct (map fst DEFAULT_BERT_OPTIMIZER_FEATURES)
   \<and> filter (\<lambda>kv. \<not> snd kv) DEFAULT_BERT_OPTIMIZER_FEATURES
       = [(''enable_gelu_approximation'', False)]
   \<and> map snd (filter (\<lambda>kv. fst kv \<noteq> ''enable_gelu_approximation'')
         DEFAULT_BERT_OPTIMIZER_FEATURES) = replicate 7 True"
  by (simp add: DEFAULT_BERT_OPTIMIZER_FEATURES_def eval_nat_numeral)

subsection \<open>The dummy inputs\<close>

lemma py_mul_singleton: "py_mul [x] n = replicate (nat n) x"
proof -
  have "concat (replicate k [x]) = replicate k x" for k
    by (induction k) simp_all
  then show ?thesis by (simp add: py_mul_def)
qed

lemma dummy_input_replicate:
  "dummy_input tok b s p =
     replicate (nat (compute_effective_axis_dimension b 2 0))
       (concat (replicate
          (nat (compute_effective_axis_dimension s 8 (num_special_tokens_to_add tok p)))
          (unk_token tok)))"
  by (simp add: dummy_input_def Let_def py_mul_singleton) (simp add: py_mul_def)

lemma generate_dummy_inputs_call:
  "generate_dummy_inputs self tok b s p fw h =
     (map_sum (\<lambda>e. e) dict (call tok (dummy_input tok b s p) fw), h)"
  by (simp add: generate_dummy_inputs_def split: sum.splits)

text \<open>
  C6: with \<open>B\<close> and \<open>S\<close> the resolved batch and sequence dimensions, the list handed to the
  tokenizer is \<open>B\<close> copies of one text, the unknown-token string written \<open>S\<close> times in a row
  with nothing between the copies (the empty text when \<open>S \<le> 0\<close>, as Python's \<open>*\<close> gives);
  \<open>B\<close> is the length of the list. The result of \<open>generate_dummy_inputs\<close> is what the
  tokenizer returns on that list and the framework hint, as a plain dictionary: when the
  tokenizer returns the encoding of a name-to-tensor mapping \<open>m\<close>, the result is \<open>m\<close>
  itself, every name with its tensor and no other; what the tokenizer raises is passed on.
\<close>

theorem generate_dummy_inputs_batch:
  "dummy_input tok b s p =
     replicate (nat (compute_effective_axis_dimension b 2 0))
       (concat (replicate
          (nat (compute_effective_axis_dimension s 8 (num_special_tokens_to_add tok p)))
          (unk_token tok)))
   \<and> int (length (dummy_input tok b s p)) = compute_effective_axis_dimension b 2 0
   \<and> generate_dummy_inputs self tok b s p fw h =
       (map_sum (\<lambda>e. e) dict (call tok (dummy_input tok b s p) fw), h)
   \<and> dict (BatchEncoding m) = m
   \<and> generate_dummy_inputs self tok b s p fw h =
       (case call tok (dummy_input tok b s p) fw of
          Inl e \<Rightarrow> (Inl e, h)
        | Inr (BatchEncoding m') \<Rightarrow> (Inr m', h))
   \<and> (call tok (dummy_input tok b s p) fw = Inr (BatchEncoding m)
        \<longrightarrow> generate_dummy_inputs self tok b s p fw h = (Inr m, h))"
  by (simp add: dummy_input_replicate generate_dummy_inputs_call dict_def
        compute_effective_axis_dimension_def split: sum.splits BatchEncoding.splits)

theorem generate_dummy_inputs_batch_witness:
  "call tok0 (dummy_input tok0 3 5 True) (Some ()) = Inr (BatchEncoding [''input_ids'' \<mapsto> [25, 25, 25]])
   \<and> dummy_input tok0 3 5 True =
       [''[UNK][UNK][UNK][UNK][UNK]'', ''[UNK][UNK][UNK][UNK][UNK]'', ''[UNK][UNK][UNK][UNK][UNK]'']
   \<and> generate_dummy_inputs (OnnxConfig_init 0) tok0 3 5 True (Some ()) (\<lambda>r. Map.empty) =
       (Inr [''input_ids'' \<mapsto> [25, 25, 25]], \<lambda>r. Map.empty)"
proof -
  have batch: "dummy_input tok0 3 5 True =
      [''[UNK][UNK][UNK][UNK][UNK]'', ''[UNK][UNK][UNK][UNK][UNK]'', ''[UNK][UNK][UNK][UNK][UNK]'']"
    by (simp add: dummy_input_replicate compute_effective_axis_dimension_def tok0_def
          eval_nat_numeral)
  have h: "call tok0 (dummy_input tok0 3 5 True) (Some ()) =
      Inr (BatchEncoding [''input_ids'' \<mapsto> [25, 25, 25]])"
    unfolding batch by (simp add: tok0_def eval_nat_numeral)
  show ?thesis
    using h batch
      generate_dummy_inputs_batch [of tok0 3 5 True "OnnxConfig_init 0" "Some ()" "\<lambda>r. Map.empty"
        "[''input_ids'' \<mapsto> [25, 25, 25]]"]
    by simp
qed

text \<open>
  C1: for a tokenizer that adds no special token to a single (non-pair) input, and with
  \<open>batch_size = -1\<close>, \<open>seq_length = -1\<close>, \<open>is_pair = False\<close>: the batch dimension resolves
  to 2 and the sequence dimension to 8, the list handed to the tokenizer has exactly two
  texts, each the unknown-token string written 8 times, and the result is the tokenizer's
  on that list.
\<close>

theorem generate_dummy_inputs_dynamic_axes:
  assumes "num_special_tokens_to_add tok False = 0"
  shows "compute_effective_axis_dimension (-1) 2 0 = 2
   \<and> compute_effective_axis_dimension (-1) 8 (num_special_tokens_to_add tok False) = 8
   \<and> dummy_input tok (-1) (-1) False =
       [concat (replicate 8 (unk_token tok)), concat (replicate 8 (unk_token tok))]
   \<and> generate_dummy_inputs self tok (-1) (-1) False fw h =
       (map_sum (\<lambda>e. e) dict
          (call tok [concat (replicate 8 (unk_token tok)), concat (replicate 8 (unk_token tok))] fw),
        h)"
proof -
  have dims: "compute_effective_axis_dimension (-1) 2 0 = 2"
    "compute_effective_axis_dimension (-1) 8 (num_special_tokens_to_add tok False) = 8"
    using assms by (simp_all add: compute_effective_axis_dimension_def)
  have two: "replicate (nat 2) x = [x, x]" for x :: string
    by (simp add: eval_nat_numeral)
  have batch: "dummy_input tok (-1) (-1) False =
      [concat (replicate 8 (unk_token tok)), concat (replicate 8 (unk_token tok))]"
    unfolding dummy_input_replicate dims two by simp
  show ?thesis
    using dims batch by (simp add: generate_dummy_inputs_call)
qed

theorem generate_dummy_inputs_dynamic_axes_witness:
  "num_special_tokens_to_add tok0 False = 0
   \<and> dummy_input tok0 (-1) (-1) False =
       [''[UNK][UNK][UNK][UNK][UNK][UNK][UNK][UNK]'', ''[UNK][UNK][UNK][UNK][UNK][UNK][UNK][UNK]'']
   \<and> generate_dummy_inputs (OnnxConfig_init 0) tok0 (-1) (-1) False None (\<lambda>r. Map.empty) =
       (Inr [''input_ids'' \<mapsto> [40, 40]], \<lambda>r. Map.empty)"
proof -
  have h: "num_special_tokens_to_add tok0 False = 0"
    by (simp add: tok0_def)
  show ?thesis
    using h generate_dummy_inputs_dynamic_axes [OF h, of "OnnxConfig_init 0" None "\<lambda>r. Map.empty"]
    by (simp add: tok0_def dict_def eval_nat_numeral)
qed

end
